theory Spec2Isabelle
  imports Main "HOL-Library.Word" "HOL-Library.Sublist"
begin

section \<open>Python values and the operations the program applies to them\<close>

text \<open>
  The program is dynamically typed: what \<^verbatim>\<open>response.json()\<close> returns, the lead
  dictionaries built by \<^verbatim>\<open>fetch_leads\<close> and the column values handed to the ORM are
  all plain Python objects. They are modelled by one type of values. A \<^verbatim>\<open>dict\<close> is the
  list of its items in insertion order (all keys in this program are strings, and a
  lookup finds the first binding of a key); a \<^verbatim>\<open>float\<close> is its IEEE-754 bit pattern;
  a character of a \<^verbatim>\<open>str\<close> is a code point below 256. The \<^verbatim>\<open>print\<close> calls of the
  source write to standard output only and are left out.
\<close>

datatype pyval =
    PNone
  | PBool bool
  | PInt int
  | PFloat "64 word"
  | PStr string
  | PList "pyval list"
  | PDict "(string \<times> pyval) list"

text \<open>
  Exceptions are values. Every operation that can raise returns \<open>py_exn + 'a\<close>, with
  \<open>Inl\<close> for the raised exception. \<open>HTTPException\<close> carries \<^verbatim>\<open>status_code\<close> and
  \<^verbatim>\<open>detail\<close>; it is a subclass of \<^verbatim>\<open>Exception\<close> like all the others.
\<close>

datatype py_exn =
    AttributeError
  | TypeError
  | KeyError
  | IndexError
  | JSONDecodeError
  | RequestException
  | APIError
  | DBAPIError
  | HTTPException int string

definition bnd :: "py_exn + 'a \<Rightarrow> ('a \<Rightarrow> py_exn + 'b) \<Rightarrow> py_exn + 'b" where
  "bnd m f = (case m of Inl e \<Rightarrow> Inl e | Inr x \<Rightarrow> f x)"

text \<open>Truth value of an object, as \<^verbatim>\<open>not x\<close> and \<^verbatim>\<open>if x\<close> compute it.\<close>

fun truthy :: "pyval \<Rightarrow> bool" where
  "truthy PNone = False"
| "truthy (PBool b) = b"
| "truthy (PInt i) = (i \<noteq> 0)"
| "truthy (PFloat w) = (take_bit 63 w \<noteq> 0)"
| "truthy (PStr s) = (s \<noteq> [])"
| "truthy (PList xs) = (xs \<noteq> [])"
| "truthy (PDict kvs) = (kvs \<noteq> [])"

text \<open>\<^verbatim>\<open>x[0]\<close>: the keys of every dict here are strings, so the key \<^verbatim>\<open>0\<close> is never found.\<close>

fun subscript0 :: "pyval \<Rightarrow> py_exn + pyval" where
  "subscript0 (PList []) = Inl IndexError"
| "subscript0 (PList (x # xs)) = Inr x"
| "subscript0 (PDict kvs) = Inl KeyError"
| "subscript0 (PStr []) = Inl IndexError"
| "subscript0 (PStr (c # cs)) = Inr (PStr [c])"
| "subscript0 v = Inl TypeError"

text \<open>\<^verbatim>\<open>x.get(k, d)\<close>: only a dict has the method.\<close>

fun dict_get :: "pyval \<Rightarrow> string \<Rightarrow> pyval \<Rightarrow> py_exn + pyval" where
  "dict_get (PDict kvs) k d = Inr (case map_of kvs k of None \<Rightarrow> d | Some v \<Rightarrow> v)"
| "dict_get v k d = Inl AttributeError"

text \<open>\<^verbatim>\<open>for item in x\<close>: the sequence of values the loop variable takes.\<close>

fun iterate :: "pyval \<Rightarrow> py_exn + pyval list" where
  "iterate (PList xs) = Inr xs"
| "iterate (PDict kvs) = Inr (map (\<lambda>kv. PStr (fst kv)) kvs)"
| "iterate (PStr s) = Inr (map (\<lambda>c. PStr [c]) s)"
| "iterate v = Inl TypeError"

text \<open>\<^verbatim>\<open>needle in hay\<close> for two strings: \<open>needle\<close> occurs in \<open>hay\<close> as a contiguous piece.\<close>

fun str_contains :: "string \<Rightarrow> string \<Rightarrow> bool" where
  "str_contains needle [] = (needle = [])"
| "str_contains needle (c # cs) = (prefix needle (c # cs) \<or> str_contains needle cs)"

text \<open>
  \<^verbatim>\<open>s in x\<close> for a string \<open>s\<close> and any object \<open>x\<close>: substring test on a string,
  membership by equality on a list, key membership on a dict, \<^verbatim>\<open>TypeError\<close> otherwise.
\<close>

fun py_in :: "string \<Rightarrow> pyval \<Rightarrow> py_exn + bool" where
  "py_in s (PStr h) = Inr (str_contains s h)"
| "py_in s (PList xs) = Inr (List.member xs (PStr s))"
| "py_in s (PDict kvs) = Inr (List.member (map fst kvs) s)"
| "py_in s v = Inl TypeError"

text \<open>\<^verbatim>\<open>isinstance(x, list)\<close> and \<^verbatim>\<open>len(x)\<close>.\<close>

fun isinstance_list :: "pyval \<Rightarrow> bool" where
  "isinstance_list (PList xs) = True"
| "isinstance_list v = False"

fun py_len :: "pyval \<Rightarrow> py_exn + int" where
  "py_len (PList xs) = Inr (int (length xs))"
| "py_len (PDict kvs) = Inr (int (length kvs))"
| "py_len (PStr s) = Inr (int (length s))"
| "py_len v = Inl TypeError"

text \<open>
  \<^verbatim>\<open>str.strip()\<close> removes the leading and the trailing whitespace. Below 256 the
  whitespace code points are 9 to 13, 28 to 32, 133 and 160.
\<close>

definition isspace :: "char \<Rightarrow> bool" where
  "isspace c = (let n = (of_char c :: nat) in
     (9 \<le> n \<and> n \<le> 13) \<or> (28 \<le> n \<and> n \<le> 32) \<or> n = 133 \<or> n = 160)"

definition strip :: "string \<Rightarrow> string" where
  "strip s = rev (dropWhile isspace (rev (dropWhile isspace s)))"

section \<open>Step 1: the query translator\<close>

text \<open>
  The text-generation client is outside the program: \<open>generate_content model contents\<close>
  is what \<^verbatim>\<open>client.models.generate_content\<close> does on that call, either raising or
  returning a response whose \<^verbatim>\<open>text\<close> attribute is a string or \<^verbatim>\<open>None\<close>.
\<close>

record genai_response =
  response_text :: "string option"

type_synonym genai = "string \<Rightarrow> string \<Rightarrow> py_exn + genai_response"

definition newline :: string where
  "newline = [CHR 0x0A]"

definition prompt_head :: string where
  "prompt_head =
     newline @
     ''    Convert this query into a Google search query '' @ newline @
     ''    to find LinkedIn profiles.'' @ newline @
     newline @
     ''    Only return the search query string.'' @ newline @
     ''    No explanation.'' @ newline @
     newline @
     ''    Example:'' @ newline @
     ''    Input: CEO in Mumbai'' @ newline @
     ''    Output: site:linkedin.com/in '' @ [CHR 0x22] @ ''CEO'' @ [CHR 0x22] @ '' '' @
       [CHR 0x22] @ ''Mumbai'' @ [CHR 0x22] @ newline @
     newline @
     ''    Query: ''"

definition prompt_tail :: string where
  "prompt_tail = newline @ ''    ''"

definition prompt :: "string \<Rightarrow> string" where
  "prompt query = prompt_head @ query @ prompt_tail"

definition str_strip :: "string option \<Rightarrow> py_exn + string" where
  "str_strip t = (case t of None \<Rightarrow> Inl AttributeError | Some s \<Rightarrow> Inr (strip s))"

definition convert_query_try :: "genai \<Rightarrow> string \<Rightarrow> py_exn + string" where
  "convert_query_try generate_content query =
     bnd (generate_content ''gemini-2.5-flash'' (prompt query))
       (\<lambda>response. str_strip (response_text response))"

definition convert_query_to_google_query :: "genai \<Rightarrow> string \<Rightarrow> py_exn + string" where
  "convert_query_to_google_query generate_content query =
     (case convert_query_try generate_content query of
        Inr search_query \<Rightarrow> Inr search_query
      | Inl e \<Rightarrow> Inl (HTTPException 500 ''Gemini failed''))"

section \<open>Step 2: the lead fetcher\<close>

text \<open>
  \<open>post url payload\<close> is what \<^verbatim>\<open>requests.post(url, json=payload)\<close> does: it raises or
  returns a response. Of the response the program reads \<^verbatim>\<open>status_code\<close> and calls
  \<^verbatim>\<open>json()\<close>, which raises when the body is not a JSON document (\<open>None\<close> here).
\<close>

record response =
  status_code :: int
  json :: "pyval option"

type_synonym requests_post = "string \<Rightarrow> pyval \<Rightarrow> py_exn + response"

definition apify_url :: "string \<Rightarrow> string" where
  "apify_url APIFY_TOKEN =
     ''https://api.apify.com/v2/acts/apify~google-search-scraper/run-sync-get-dataset-items?token=''
     @ APIFY_TOKEN"

definition apify_payload :: "string \<Rightarrow> pyval" where
  "apify_payload search_query =
     PDict [(''queries'', PStr search_query), (''maxPagesPerQuery'', PInt 1)]"

definition response_json :: "response \<Rightarrow> py_exn + pyval" where
  "response_json r = (case json r of None \<Rightarrow> Inl JSONDecodeError | Some v \<Rightarrow> Inr v)"

text \<open>The dict literal appended for a matching item; its values are evaluated in order.\<close>

definition lead_dict :: "pyval \<Rightarrow> pyval \<Rightarrow> pyval \<Rightarrow> py_exn + pyval" where
  "lead_dict item personal_info link =
     bnd (dict_get item ''title'' PNone) (\<lambda>v_name.
     bnd (dict_get personal_info ''jobTitle'' PNone) (\<lambda>v_title.
     bnd (dict_get personal_info ''companyName'' PNone) (\<lambda>v_company.
     bnd (dict_get personal_info ''location'' PNone) (\<lambda>v_location.
       Inr (PDict [(''name'', v_name),
                   (''title'', v_title),
                   (''email'', PNone),
                   (''organization'', PDict [(''name'', v_company)]),
                   (''location'', v_location),
                   (''linkedin_url'', link)])))))"

text \<open>The \<^verbatim>\<open>for item in organic_results\<close> loop, with the list \<^verbatim>\<open>leads\<close> it appends to.\<close>

fun fetch_loop :: "pyval list \<Rightarrow> pyval list \<Rightarrow> py_exn + pyval list" where
  "fetch_loop [] leads = Inr leads"
| "fetch_loop (item # rest) leads =
     bnd (dict_get item ''url'' (PStr [])) (\<lambda>link.
     bnd (py_in ''linkedin.com/in'' link) (\<lambda>found.
       if found then
         bnd (dict_get item ''personalInfo'' (PDict [])) (\<lambda>personal_info.
         bnd (lead_dict item personal_info link) (\<lambda>lead.
           fetch_loop rest (leads @ [lead])))
       else fetch_loop rest leads))"

definition fetch_leads_try :: "string \<Rightarrow> requests_post \<Rightarrow> string \<Rightarrow> py_exn + pyval" where
  "fetch_leads_try APIFY_TOKEN post search_query =
     bnd (post (apify_url APIFY_TOKEN) (apify_payload search_query)) (\<lambda>response.
       if status_code response \<noteq> 200 \<and> status_code response \<noteq> 201
       then Inl (HTTPException 500 ''Apify API failed'')
       else
         bnd (response_json response) (\<lambda>results.
           if \<not> truthy results then Inr (PList [])
           else
             bnd (subscript0 results) (\<lambda>first.
             bnd (dict_get first ''organicResults'' (PList [])) (\<lambda>organic_results.
             bnd (iterate organic_results) (\<lambda>items.
             bnd (fetch_loop items []) (\<lambda>leads.
               Inr (PList leads)))))))"

definition fetch_leads :: "string \<Rightarrow> requests_post \<Rightarrow> string \<Rightarrow> py_exn + pyval" where
  "fetch_leads APIFY_TOKEN post search_query =
     (case fetch_leads_try APIFY_TOKEN post search_query of
        Inr leads \<Rightarrow> Inr leads
      | Inl e \<Rightarrow> Inl (HTTPException 500 ''Apify request failed''))"

section \<open>Step 3: the lead store\<close>

text \<open>
  The mapped class \<^verbatim>\<open>Lead\<close>: one field per column of the table \<^verbatim>\<open>leads\<close>. The
  primary key is \<open>None\<close> until the database assigns it; the other columns hold whatever
  object the constructor was given.
\<close>

record Lead =
  lead_id :: "int option"
  name :: pyval
  email :: pyval
  title :: pyval
  company :: pyval
  location :: pyval

text \<open>
  The database and the ORM session are outside the program. A session is modelled by the
  rows of the table that are committed (\<open>table\<close>), the rows inserted by the open
  transaction (\<open>txn\<close>), the objects added to the session and not yet flushed
  (\<open>pending\<close>), and whether it has been closed. The database decides whether the
  \<open>n\<close>-th \<^verbatim>\<open>INSERT\<close> of a transaction is refused for a given object, which key a new
  row gets, and whether \<^verbatim>\<open>COMMIT\<close> is refused. \<^verbatim>\<open>rollback\<close> and \<^verbatim>\<open>close\<close> are
  taken not to raise.
\<close>

record session =
  table :: "Lead list"
  txn :: "Lead list"
  pending :: "Lead list"
  is_closed :: bool

record database =
  insert_fails :: "nat \<Rightarrow> Lead \<Rightarrow> bool"
  assign_id :: "Lead list \<Rightarrow> int"
  commit_fails :: bool

definition SessionLocal :: "Lead list \<Rightarrow> session" where
  "SessionLocal rows = \<lparr>table = rows, txn = [], pending = [], is_closed = False\<rparr>"

definition add :: "session \<Rightarrow> Lead \<Rightarrow> session" where
  "add s obj = s\<lparr>pending := pending s @ [obj]\<rparr>"

fun flush :: "database \<Rightarrow> Lead list \<Rightarrow> session \<Rightarrow> (py_exn + unit) \<times> session" where
  "flush d [] s = (Inr (), s\<lparr>pending := []\<rparr>)"
| "flush d (obj # rest) s =
     (if insert_fails d (length (txn s)) obj then (Inl DBAPIError, s)
      else flush d rest
             (s\<lparr>txn := txn s @ [obj\<lparr>lead_id := Some (assign_id d (table s @ txn s))\<rparr>]\<rparr>))"

definition commit :: "database \<Rightarrow> session \<Rightarrow> (py_exn + unit) \<times> session" where
  "commit d s =
     (case flush d (pending s) s of
        (Inl e, s') \<Rightarrow> (Inl e, s')
      | (Inr u, s') \<Rightarrow>
          if commit_fails d then (Inl DBAPIError, s')
          else (Inr (), s'\<lparr>table := table s' @ txn s', txn := []\<rparr>))"

definition rollback :: "session \<Rightarrow> session" where
  "rollback s = s\<lparr>txn := [], pending := []\<rparr>"

definition close :: "session \<Rightarrow> session" where
  "close s = s\<lparr>txn := [], pending := [], is_closed := True\<rparr>"

text \<open>The constructor call \<^verbatim>\<open>Lead(name=..., email=..., ...)\<close> with its five lookups.\<close>

definition new_lead :: "pyval \<Rightarrow> py_exn + Lead" where
  "new_lead lead =
     bnd (dict_get lead ''name'' PNone) (\<lambda>v_name.
     bnd (dict_get lead ''email'' PNone) (\<lambda>v_email.
     bnd (dict_get lead ''title'' PNone) (\<lambda>v_title.
     bnd (bnd (dict_get lead ''organization'' (PDict []))
            (\<lambda>org. dict_get org ''name'' PNone)) (\<lambda>v_company.
     bnd (bnd (dict_get lead ''organization'' (PDict []))
            (\<lambda>org. dict_get org ''location'' PNone)) (\<lambda>v_location.
       Inr \<lparr>lead_id = None, name = v_name, email = v_email, title = v_title,
            company = v_company, location = v_location\<rparr>)))))"

text \<open>The \<^verbatim>\<open>for lead in leads\<close> loop; the session is returned as it is where the loop stops.\<close>

fun store_loop :: "pyval list \<Rightarrow> session \<Rightarrow> (py_exn + unit) \<times> session" where
  "store_loop [] db = (Inr (), db)"
| "store_loop (lead # rest) db =
     (case new_lead lead of
        Inl e \<Rightarrow> (Inl e, db)
      | Inr obj \<Rightarrow> store_loop rest (add db obj))"

definition store_leads_try :: "database \<Rightarrow> pyval \<Rightarrow> session \<Rightarrow> (py_exn + unit) \<times> session" where
  "store_leads_try d leads db =
     (case iterate leads of
        Inl e \<Rightarrow> (Inl e, db)
      | Inr items \<Rightarrow>
          (case store_loop items db of
             (Inl e, db') \<Rightarrow> (Inl e, db')
           | (Inr u, db') \<Rightarrow> commit d db'))"

text \<open>\<^verbatim>\<open>try\<close> / \<^verbatim>\<open>except\<close> / \<^verbatim>\<open>finally\<close>: the session is closed on both paths.\<close>

definition store_leads :: "database \<Rightarrow> Lead list \<Rightarrow> pyval \<Rightarrow> (py_exn + unit) \<times> session" where
  "store_leads d rows leads =
     (case store_leads_try d leads (SessionLocal rows) of
        (Inr u, db) \<Rightarrow> (Inr (), close db)
      | (Inl e, db) \<Rightarrow> (Inl (HTTPException 500 ''Database error''), close (rollback db)))"

section \<open>The endpoint\<close>

record LeadQuery =
  query :: string

record env =
  APIFY_TOKEN :: string
  generate_content :: genai
  post :: requests_post
  db :: database

text \<open>
  The route function. It returns its result or the exception it raised, together with the
  committed rows of the table after the call.
\<close>

definition generate_leads :: "env \<Rightarrow> Lead list \<Rightarrow> LeadQuery \<Rightarrow> (py_exn + pyval) \<times> Lead list" where
  "generate_leads e rows data =
     (case convert_query_to_google_query (generate_content e) (query data) of
        Inl x \<Rightarrow> (Inl x, rows)
      | Inr search_query \<Rightarrow>
          (case fetch_leads (APIFY_TOKEN e) (post e) search_query of
             Inl x \<Rightarrow> (Inl x, rows)
           | Inr leads \<Rightarrow>
               if \<not> isinstance_list leads
               then (Inl (HTTPException 500 ''Invalid format''), rows)
               else
                 (case store_leads (db e) rows leads of
                    (Inl x, s) \<Rightarrow> (Inl x, table s)
                  | (Inr u, s) \<Rightarrow>
                      (case py_len leads of
                         Inl x \<Rightarrow> (Inl x, table s)
                       | Inr n \<Rightarrow>
                           (Inr (PDict [(''google_query'', PStr search_query),
                                       (''leads_found'', PInt n)]),
                            table s)))))"

text \<open>
  What the web framework sends for the outcome of a route function: the returned
  dictionary with status 200, an \<^verbatim>\<open>HTTPException\<close> with its own status code and
  detail, any other exception as a plain status 500.
\<close>

record http_response =
  status :: int
  body :: pyval

fun respond :: "py_exn + pyval \<Rightarrow> http_response" where
  "respond (Inr v) = \<lparr>status = 200, body = v\<rparr>"
| "respond (Inl (HTTPException code detail)) =
     \<lparr>status = code, body = PDict [(''detail'', PStr detail)]\<rparr>"
| "respond (Inl x) = \<lparr>status = 500, body = PStr ''Internal Server Error''\<rparr>"

definition post_generate_leads :: "env \<Rightarrow> Lead list \<Rightarrow> LeadQuery \<Rightarrow> http_response" where
  "post_generate_leads e rows data = respond (fst (generate_leads e rows data))"

section \<open>Notions used to state the properties\<close>

text \<open>
  These follow the wording of the specification, not the code. \<open>field v k\<close> is the
  value of the field \<open>k\<close> of \<open>v\<close> when \<open>v\<close> is an object that has it, and null
  otherwise ("missing fields become null").
\<close>

definition field :: "pyval \<Rightarrow> string \<Rightarrow> pyval" where
  "field v k =
     (case v of
        PDict kvs \<Rightarrow> (case map_of kvs k of None \<Rightarrow> PNone | Some x \<Rightarrow> x)
      | _ \<Rightarrow> PNone)"

text \<open>An organic result whose URL is a string containing the LinkedIn profile path segment.\<close>

definition has_profile_url :: "pyval \<Rightarrow> bool" where
  "has_profile_url item =
     (case field item ''url'' of PStr u \<Rightarrow> sublist ''linkedin.com/in'' u | _ \<Rightarrow> False)"

text \<open>The lead record extracted from an organic result.\<close>

definition lead_record :: "pyval \<Rightarrow> pyval" where
  "lead_record item =
     PDict [(''name'', field item ''title''),
            (''title'', field (field item ''personalInfo'') ''jobTitle''),
            (''email'', PNone),
            (''organization'',
               PDict [(''name'', field (field item ''personalInfo'') ''companyName'')]),
            (''location'', field (field item ''personalInfo'') ''location''),
            (''linkedin_url'', field item ''url'')]"

fun is_dict :: "pyval \<Rightarrow> bool" where
  "is_dict (PDict kvs) = True"
| "is_dict v = False"

fun is_str :: "pyval \<Rightarrow> bool" where
  "is_str (PStr s) = True"
| "is_str v = False"

text \<open>
  A well-formed organic result: an object whose \<^verbatim>\<open>url\<close>, when present, is a string,
  and whose \<^verbatim>\<open>personalInfo\<close>, when present on a result with a profile URL, is an object.
\<close>

definition wf_result :: "pyval \<Rightarrow> bool" where
  "wf_result item =
     (case item of
        PDict kvs \<Rightarrow>
          (case map_of kvs ''url'' of
             None \<Rightarrow> True
           | Some link \<Rightarrow>
               is_str link \<and>
               (has_profile_url item \<longrightarrow>
                  (case map_of kvs ''personalInfo'' of None \<Rightarrow> True | Some p \<Rightarrow> is_dict p)))
      | _ \<Rightarrow> False)"

text \<open>Fixed environments for concrete runs: a service that answers every call alike.\<close>

definition reply_with :: "response \<Rightarrow> requests_post" where
  "reply_with r url payload = Inr r"

definition answer_with :: "string \<Rightarrow> genai" where
  "answer_with t model contents = Inr \<lparr>response_text = Some t\<rparr>"

text \<open>A sample response: two organic results, the second one a LinkedIn profile.\<close>

definition other_result :: pyval where
  "other_result = PDict [(''title'', PStr ''Acme''), (''url'', PStr ''https://acme.example/'')]"

definition profile_result :: pyval where
  "profile_result =
     PDict [(''title'', PStr ''Jane Doe''),
            (''url'', PStr ''https://www.linkedin.com/in/jane''),
            (''personalInfo'',
               PDict [(''jobTitle'', PStr ''CEO''), (''location'', PStr ''Mumbai'')])]"

definition sample_results :: "pyval list" where
  "sample_results = [other_result, profile_result]"

definition sample_response :: response where
  "sample_response =
     \<lparr>status_code = 200,
      json = Some (PList [PDict [(''organicResults'', PList sample_results)]])\<rparr>"

definition sample_lead :: pyval where
  "sample_lead =
     PDict [(''name'', PStr ''Jane Doe''),
            (''title'', PStr ''CEO''),
            (''email'', PNone),
            (''organization'', PDict [(''name'', PNone)]),
            (''location'', PStr ''Mumbai''),
            (''linkedin_url'', PStr ''https://www.linkedin.com/in/jane'')]"

text \<open>A database that accepts everything and numbers the rows from 1.\<close>

definition never_fails :: "nat \<Rightarrow> Lead \<Rightarrow> bool" where
  "never_fails n obj = False"

definition next_key :: "Lead list \<Rightarrow> int" where
  "next_key rows = int (length rows) + 1"

definition sample_db :: database where
  "sample_db = \<lparr>insert_fails = never_fails, assign_id = next_key, commit_fails = False\<rparr>"

text \<open>Further sample responses: a refusal, an empty array, a result set without results.\<close>

definition unavailable_response :: response where
  "unavailable_response =
     \<lparr>status_code = 503,
      json = Some (PList [PDict [(''organicResults'', PList sample_results)]])\<rparr>"

definition empty_response :: response where
  "empty_response = \<lparr>status_code = 200, json = Some (PList [])\<rparr>"

definition no_results_response :: response where
  "no_results_response =
     \<lparr>status_code = 201,
      json = Some (PList [PDict [(''searchQuery'', PDict [(''term'', PStr ''q'')]),
                                 (''organicResults'', PList [])]])\<rparr>"

text \<open>
  A sample answer of the model, a model whose response has no text, and a model that
  answers one prompt only.
\<close>

definition sample_answer :: string where
  "sample_answer = '' site:linkedin.com/in CEO Mumbai'' @ newline"

definition textless_model :: genai where
  "textless_model model contents = Inr \<lparr>response_text = None\<rparr>"

definition answer_only :: "string \<Rightarrow> string \<Rightarrow> genai" where
  "answer_only expected t model contents =
     (if model = ''gemini-2.5-flash'' \<and> contents = expected
      then Inr \<lparr>response_text = Some t\<rparr> else Inl APIError)"

text \<open>
  A row of the table that holds a lead record: the database gave it a key, and its columns
  are those of the object built from the record.
\<close>

definition stored_as :: "pyval \<Rightarrow> Lead \<Rightarrow> bool" where
  "stored_as lead row = (lead_id row \<noteq> None \<and> new_lead lead = Inr (row\<lparr>lead_id := None\<rparr>))"

text \<open>The object built from the sample lead, and a database that refuses the second insert.\<close>

definition sample_row :: Lead where
  "sample_row =
     \<lparr>lead_id = None, name = PStr ''Jane Doe'', email = PNone, title = PStr ''CEO'',
      company = PNone, location = PNone\<rparr>"

definition refuses_second :: "nat \<Rightarrow> Lead \<Rightarrow> bool" where
  "refuses_second n obj = (n = 1)"

definition strict_db :: database where
  "strict_db = \<lparr>insert_fails = refuses_second, assign_id = next_key, commit_fails = False\<rparr>"

text \<open>
  An environment in which every step succeeds, and services that fail: a model and a
  scraping service that raise, a database that refuses to commit.
\<close>

definition failing_model :: genai where
  "failing_model model contents = Inl APIError"

definition refuse_post :: requests_post where
  "refuse_post url payload = Inl RequestException"

definition failing_db :: database where
  "failing_db = \<lparr>insert_fails = never_fails, assign_id = next_key, commit_fails = True\<rparr>"

definition sample_env :: env where
  "sample_env =
     \<lparr>APIFY_TOKEN = ''t'', generate_content = answer_with '' q '',
      post = reply_with sample_response, db = sample_db\<rparr>"

section \<open>Basic facts\<close>

lemma bnd_Inl [simp]: "bnd (Inl e) f = Inl e"
  by (simp add: bnd_def)

lemma bnd_Inr [simp]: "bnd (Inr x) f = f x"
  by (simp add: bnd_def)

lemma str_contains_sublist: "str_contains needle hay = sublist needle hay"
  by (induction hay) (simp_all add: sublist_Cons_right)

section \<open>The fetcher on well-formed responses\<close>

lemma fetch_step_skip:
  assumes "wf_result item" "\<not> has_profile_url item"
  shows "fetch_loop (item # rest) acc = fetch_loop rest acc"
  using assms
  by (auto simp: wf_result_def has_profile_url_def field_def str_contains_sublist
      split: pyval.splits option.splits)

lemma fetch_step_take:
  assumes "wf_result item" "has_profile_url item"
  shows "fetch_loop (item # rest) acc = fetch_loop rest (acc @ [lead_record item])"
  using assms
  by (auto simp: wf_result_def has_profile_url_def field_def str_contains_sublist
      lead_dict_def lead_record_def
      split: pyval.splits option.splits)

lemma fetch_loop_wf:
  "list_all wf_result items \<Longrightarrow>
   fetch_loop items acc = Inr (acc @ map lead_record (filter has_profile_url items))"
proof (induction items arbitrary: acc)
  case Nil
  then show ?case by simp
next
  case (Cons item rest)
  then have wf: "wf_result item" and rest: "list_all wf_result rest" by simp_all
  show ?case
  proof (cases "has_profile_url item")
    case True
    then show ?thesis
      using fetch_step_take [OF wf True] Cons.IH [OF rest] by simp
  next
    case False
    then show ?thesis
      using fetch_step_skip [OF wf False] Cons.IH [OF rest] by simp
  qed
qed

text \<open>
  C1, as amended. For every response of the scraping service with status 200 or 201 whose
  JSON body is an array whose first element is an object with an \<^verbatim>\<open>organicResults\<close>
  list of N well-formed results, of which M have a \<^verbatim>\<open>url\<close> string containing
  \<^verbatim>\<open>linkedin.com/in\<close>, \<open>fetch_leads\<close> returns the list of exactly M lead records,
  one per matching result, in the order of the results.
\<close>

theorem fetch_leads_well_formed:
  assumes "send (apify_url tok) (apify_payload q) = Inr r"
    and "status_code r = 200 \<or> status_code r = 201"
    and "json r = Some (PList (PDict first # others))"
    and "map_of first ''organicResults'' = Some (PList items)"
    and "list_all wf_result items"
  shows "fetch_leads tok send q = Inr (PList (map lead_record (filter has_profile_url items)))
       \<and> length (map lead_record (filter has_profile_url items))
           = length (filter has_profile_url items)"
  using assms fetch_loop_wf [OF assms(5), of "[]"]
  by (auto simp: fetch_leads_def fetch_leads_try_def response_json_def)

text \<open>The sample response is well formed, and its one profile result gives the sample lead.\<close>

lemma other_result_no_profile: "\<not> has_profile_url other_result"
  by (simp add: other_result_def has_profile_url_def field_def sublist_Cons_right)

lemma profile_result_profile: "has_profile_url profile_result"
  by (simp add: profile_result_def has_profile_url_def field_def sublist_Cons_right)

lemma sample_results_filter: "filter has_profile_url sample_results = [profile_result]"
  using other_result_no_profile profile_result_profile by (simp add: sample_results_def)

lemma sample_results_wf: "list_all wf_result sample_results"
  using other_result_no_profile
  by (simp add: sample_results_def wf_result_def other_result_def profile_result_def)

lemma sample_lead_record: "lead_record profile_result = sample_lead"
  by (simp add: profile_result_def lead_record_def field_def sample_lead_def)

theorem fetch_leads_well_formed_witness:
  "reply_with sample_response (apify_url ''t'') (apify_payload ''q'') = Inr sample_response
   \<and> (status_code sample_response = 200 \<or> status_code sample_response = 201)
   \<and> json sample_response = Some (PList [PDict [(''organicResults'', PList sample_results)]])
   \<and> map_of [(''organicResults'', PList sample_results)] ''organicResults''
       = Some (PList sample_results)
   \<and> list_all wf_result sample_results
   \<and> length sample_results = 2
   \<and> fetch_leads ''t'' (reply_with sample_response) ''q'' = Inr (PList [sample_lead])"
proof -
  have h1: "reply_with sample_response (apify_url ''t'') (apify_payload ''q'') = Inr sample_response"
    by (simp add: reply_with_def)
  have h2: "status_code sample_response = 200 \<or> status_code sample_response = 201"
    by (simp add: sample_response_def)
  have h3: "json sample_response = Some (PList [PDict [(''organicResults'', PList sample_results)]])"
    by (simp add: sample_response_def)
  have h4: "map_of [(''organicResults'', PList sample_results)] ''organicResults''
              = Some (PList sample_results)"
    by simp
  note h5 = sample_results_wf
  have "fetch_leads ''t'' (reply_with sample_response) ''q'' = Inr (PList [sample_lead])"
    using fetch_leads_well_formed [where send = "reply_with sample_response", OF h1 h2 h3 h4 h5]
    by (simp add: sample_results_filter sample_lead_record)
  then show ?thesis
    using h1 h2 h3 h5 by (simp add: sample_results_def)
qed

text \<open>
  C1, as stated, fails: each of these responses has organic results, M of them with a
  profile URL, and \<open>fetch_leads\<close> raises instead of returning M records. In the first
  the matching result has a null \<^verbatim>\<open>personalInfo\<close>; in the second a result without a
  profile has a null \<^verbatim>\<open>url\<close>; in the third a result is not an object; the fourth
  has status 500.
\<close>

theorem fetch_leads_count_counterexample:
  "length (filter has_profile_url
      [PDict [(''url'', PStr ''https://www.linkedin.com/in/jane''), (''personalInfo'', PNone)]]) = 1
   \<and> fetch_leads ''t''
         (reply_with \<lparr>status_code = 200,
            json = Some (PList [PDict [(''organicResults'',
              PList [PDict [(''url'', PStr ''https://www.linkedin.com/in/jane''),
                            (''personalInfo'', PNone)]])]])\<rparr>)
         ''q'' = Inl (HTTPException 500 ''Apify request failed'')
   \<and> length (filter has_profile_url
      [PDict [(''url'', PStr ''https://www.linkedin.com/in/jane'')],
       PDict [(''url'', PNone)]]) = 1
   \<and> fetch_leads ''t''
         (reply_with \<lparr>status_code = 200,
            json = Some (PList [PDict [(''organicResults'',
              PList [PDict [(''url'', PStr ''https://www.linkedin.com/in/jane'')],
                     PDict [(''url'', PNone)]])]])\<rparr>)
         ''q'' = Inl (HTTPException 500 ''Apify request failed'')
   \<and> length (filter has_profile_url [PStr ''x'']) = 0
   \<and> fetch_leads ''t''
         (reply_with \<lparr>status_code = 200,
            json = Some (PList [PDict [(''organicResults'', PList [PStr ''x''])]])\<rparr>)
         ''q'' = Inl (HTTPException 500 ''Apify request failed'')
   \<and> length (filter has_profile_url
      [PDict [(''url'', PStr ''https://www.linkedin.com/in/jane'')]]) = 1
   \<and> fetch_leads ''t''
         (reply_with \<lparr>status_code = 500,
            json = Some (PList [PDict [(''organicResults'',
              PList [PDict [(''url'', PStr ''https://www.linkedin.com/in/jane'')]])]])\<rparr>)
         ''q'' = Inl (HTTPException 500 ''Apify request failed'')"
  by (simp add: fetch_leads_def fetch_leads_try_def response_json_def reply_with_def lead_dict_def
       has_profile_url_def field_def sublist_Cons_right)

section \<open>What each step can raise\<close>

lemma fetch_leads_try_list:
  "fetch_leads_try tok send q = Inr v \<Longrightarrow> \<exists>xs. v = PList xs"
  by (auto simp: fetch_leads_try_def bnd_def split: sum.splits if_splits)

lemma fetch_leads_Inr: "fetch_leads tok send q = Inr v \<longleftrightarrow> fetch_leads_try tok send q = Inr v"
  by (simp add: fetch_leads_def split: sum.splits)

lemma fetch_leads_Inl:
  "fetch_leads tok send q = Inl x \<Longrightarrow> x = HTTPException 500 ''Apify request failed''"
  by (auto simp: fetch_leads_def split: sum.splits)

lemma convert_Inl:
  "convert_query_to_google_query gen q = Inl x \<Longrightarrow> x = HTTPException 500 ''Gemini failed''"
  by (auto simp: convert_query_to_google_query_def split: sum.splits)

lemma store_leads_Inl:
  "fst (store_leads d rows leads) = Inl x \<Longrightarrow> x = HTTPException 500 ''Database error''"
  by (auto simp: store_leads_def split: sum.splits prod.splits)

section \<open>The fetcher on failures and on empty results\<close>

text \<open>
  C6. For every response of the scraping service whose status code is neither 200 nor
  201, \<open>fetch_leads\<close> raises a service failure and returns no lead records; the
  endpoint reports it as status 500 and stores nothing.
\<close>

theorem fetch_leads_bad_status:
  assumes "send (apify_url tok) (apify_payload q) = Inr r"
    and "status_code r \<noteq> 200" and "status_code r \<noteq> 201"
  shows "fetch_leads tok send q = Inl (HTTPException 500 ''Apify request failed'')
       \<and> (convert_query_to_google_query gen (query data) = Inr q \<longrightarrow>
            status (post_generate_leads
                      \<lparr>APIFY_TOKEN = tok, generate_content = gen, post = send, db = d\<rparr> rows data) = 500
          \<and> snd (generate_leads
                      \<lparr>APIFY_TOKEN = tok, generate_content = gen, post = send, db = d\<rparr> rows data) = rows)"
proof -
  have f: "fetch_leads tok send q = Inl (HTTPException 500 ''Apify request failed'')"
    using assms by (simp add: fetch_leads_def fetch_leads_try_def)
  then show ?thesis
    by (simp add: post_generate_leads_def generate_leads_def)
qed

lemma convert_answer_with:
  "convert_query_to_google_query (answer_with t) q = Inr (strip t)"
  by (simp add: convert_query_to_google_query_def convert_query_try_def answer_with_def
      str_strip_def)

lemma strip_sample: "strip '' q '' = ''q''"
  by (simp add: strip_def isspace_def)

theorem fetch_leads_bad_status_witness:
  "reply_with unavailable_response (apify_url ''t'') (apify_payload ''q'')
     = Inr unavailable_response
   \<and> status_code unavailable_response \<noteq> 200
   \<and> status_code unavailable_response \<noteq> 201
   \<and> convert_query_to_google_query (answer_with '' q '') (query \<lparr>query = ''find''\<rparr>) = Inr ''q''
   \<and> fetch_leads ''t'' (reply_with unavailable_response) ''q''
       = Inl (HTTPException 500 ''Apify request failed'')
   \<and> status (post_generate_leads
        \<lparr>APIFY_TOKEN = ''t'', generate_content = answer_with '' q '',
         post = reply_with unavailable_response, db = sample_db\<rparr>
        [] \<lparr>query = ''find''\<rparr>) = 500"
proof -
  have h1: "reply_with unavailable_response (apify_url ''t'') (apify_payload ''q'')
              = Inr unavailable_response"
    by (simp add: reply_with_def)
  have h2: "status_code unavailable_response \<noteq> 200"
    by (simp add: unavailable_response_def)
  have h3: "status_code unavailable_response \<noteq> 201"
    by (simp add: unavailable_response_def)
  have c: "convert_query_to_google_query (answer_with '' q '') (query \<lparr>query = ''find''\<rparr>)
             = Inr ''q''"
    by (simp add: convert_answer_with strip_sample)
  show ?thesis
    using fetch_leads_bad_status [where send = "reply_with unavailable_response",
        OF h1 h2 h3, of "answer_with '' q ''" "\<lparr>query = ''find''\<rparr>" sample_db "[]"]
      h1 h2 h3 c
    by simp
qed

text \<open>
  C7. For every successful response whose top-level array is empty, or whose first result
  set has no organic results (the list is empty or the key is absent), \<open>fetch_leads\<close>
  returns the empty list and does not raise.
\<close>

theorem fetch_leads_no_results:
  assumes "send (apify_url tok) (apify_payload q) = Inr r"
    and "status_code r = 200 \<or> status_code r = 201"
    and "json r = Some (PList [])
       \<or> json r = Some (PList (PDict first # others))
         \<and> (map_of first ''organicResults'' = None
            \<or> map_of first ''organicResults'' = Some (PList []))"
  shows "fetch_leads tok send q = Inr (PList [])"
  using assms by (auto simp: fetch_leads_def fetch_leads_try_def response_json_def)

theorem fetch_leads_no_results_witness:
  "reply_with empty_response (apify_url ''t'') (apify_payload ''q'') = Inr empty_response
   \<and> (status_code empty_response = 200 \<or> status_code empty_response = 201)
   \<and> json empty_response = Some (PList [])
   \<and> fetch_leads ''t'' (reply_with empty_response) ''q'' = Inr (PList [])
   \<and> reply_with no_results_response (apify_url ''t'') (apify_payload ''q'')
       = Inr no_results_response
   \<and> (status_code no_results_response = 200 \<or> status_code no_results_response = 201)
   \<and> json no_results_response
       = Some (PList [PDict [(''searchQuery'', PDict [(''term'', PStr ''q'')]),
                             (''organicResults'', PList [])]])
   \<and> map_of [(''searchQuery'', PDict [(''term'', PStr ''q'')]), (''organicResults'', PList [])]
         ''organicResults'' = Some (PList [])
   \<and> fetch_leads ''t'' (reply_with no_results_response) ''q'' = Inr (PList [])"
proof -
  have a1: "reply_with empty_response (apify_url ''t'') (apify_payload ''q'') = Inr empty_response"
    by (simp add: reply_with_def)
  have a2: "status_code empty_response = 200 \<or> status_code empty_response = 201"
    by (simp add: empty_response_def)
  have a3: "json empty_response = Some (PList [])"
    by (simp add: empty_response_def)
  have b1: "reply_with no_results_response (apify_url ''t'') (apify_payload ''q'')
              = Inr no_results_response"
    by (simp add: reply_with_def)
  have b2: "status_code no_results_response = 200 \<or> status_code no_results_response = 201"
    by (simp add: no_results_response_def)
  have b3: "json no_results_response
              = Some (PList [PDict [(''searchQuery'', PDict [(''term'', PStr ''q'')]),
                                    (''organicResults'', PList [])]])"
    by (simp add: no_results_response_def)
  have b4: "map_of [(''searchQuery'', PDict [(''term'', PStr ''q'')]),
                    (''organicResults'', PList [])] ''organicResults'' = Some (PList [])"
    by simp
  have a: "fetch_leads ''t'' (reply_with empty_response) ''q'' = Inr (PList [])"
    using fetch_leads_no_results [where send = "reply_with empty_response", OF a1 a2] a3
    by simp
  have b: "fetch_leads ''t'' (reply_with no_results_response) ''q'' = Inr (PList [])"
    using fetch_leads_no_results [where send = "reply_with no_results_response", OF b1 b2,
        of "[(''searchQuery'', PDict [(''term'', PStr ''q'')]), (''organicResults'', PList [])]"
           "[]"]
      b3 b4
    by simp
  show ?thesis
    using a1 a2 a3 a b1 b2 b3 b4 b by simp
qed

text \<open>
  C10. \<open>fetch_leads\<close> either raises or returns a list, so the endpoint never raises
  its "Invalid format" error.
\<close>

theorem fetch_leads_returns_list:
  "((\<exists>x. fetch_leads tok send q = Inl x) \<or> (\<exists>xs. fetch_leads tok send q = Inr (PList xs)))
   \<and> fst (generate_leads e rows data) \<noteq> Inl (HTTPException 500 ''Invalid format'')"
proof -
  have a: "(\<exists>x. fetch_leads tok send q = Inl x) \<or> (\<exists>xs. fetch_leads tok send q = Inr (PList xs))"
    for tok send q
    using fetch_leads_try_list [of tok send q]
    by (cases "fetch_leads_try tok send q") (auto simp: fetch_leads_def)
  have b: "fst (generate_leads e rows data) \<noteq> Inl (HTTPException 500 ''Invalid format'')"
  proof (cases "convert_query_to_google_query (generate_content e) (query data)")
    case (Inl x)
    then show ?thesis
      using convert_Inl [OF Inl] by (simp add: generate_leads_def)
  next
    case (Inr search_query)
    show ?thesis
    proof (cases "fetch_leads (APIFY_TOKEN e) (post e) search_query")
      case (Inl x)
      then show ?thesis
        using Inr fetch_leads_Inl [OF Inl] by (simp add: generate_leads_def)
    next
      case fetched: (Inr leads)
      then obtain xs where xs: "leads = PList xs"
        using a [of "APIFY_TOKEN e" "post e" search_query] by auto
      obtain r s where st: "store_leads (db e) rows leads = (r, s)"
        by (cases "store_leads (db e) rows leads")
      show ?thesis
      proof (cases r)
        case (Inl x)
        then have "x = HTTPException 500 ''Database error''"
          using st store_leads_Inl [of "db e" rows leads x] by simp
        then show ?thesis
          using Inr fetched xs st Inl by (simp add: generate_leads_def)
      next
        case stored: (Inr u)
        then show ?thesis
          using Inr fetched xs st by (simp add: generate_leads_def)
      qed
    qed
  qed
  show ?thesis using a b by blast
qed


section \<open>The translator\<close>

text \<open>What \<open>strip\<close> returns is the text without a run of whitespace at each end.\<close>

lemma strip_decompose:
  "\<exists>l r. t = l @ strip t @ r \<and> list_all isspace l \<and> list_all isspace r"
proof -
  let ?u = "dropWhile isspace t"
  have t: "t = takeWhile isspace t @ ?u"
    by simp
  have "rev (rev ?u) = rev (dropWhile isspace (rev ?u)) @ rev (takeWhile isspace (rev ?u))"
    by (metis rev_append takeWhile_dropWhile_id)
  then have u: "?u = strip t @ rev (takeWhile isspace (rev ?u))"
    by (simp add: strip_def)
  have l: "list_all isspace (takeWhile isspace t)"
    by (simp add: list_all_iff) (meson set_takeWhileD)
  have r: "list_all isspace (rev (takeWhile isspace (rev ?u)))"
    by (simp add: list_all_iff) (meson set_takeWhileD)
  from t u have "t = takeWhile isspace t @ strip t @ rev (takeWhile isspace (rev ?u))"
    by simp
  with l r show ?thesis by blast
qed

lemma strip_ends:
  assumes "strip t \<noteq> []"
  shows "\<not> isspace (hd (strip t)) \<and> \<not> isspace (last (strip t))"
proof -
  let ?u = "dropWhile isspace t"
  let ?v = "dropWhile isspace (rev ?u)"
  have v: "?v \<noteq> []" using assms by (simp add: strip_def)
  have u: "?u \<noteq> []"
  proof
    assume e: "?u = []"
    have "?v = []" unfolding e by simp
    with v show False by simp
  qed
  have "last (strip t) = hd ?v"
    using v by (simp add: strip_def last_rev)
  moreover have "\<not> isspace (hd ?v)"
    using v by (rule hd_dropWhile)
  moreover have "hd (strip t) = last ?v"
    using v by (simp add: strip_def hd_rev)
  moreover have "last ?v = last (rev ?u)"
    using v by (metis last_appendR takeWhile_dropWhile_id)
  moreover have "last (rev ?u) = hd ?u"
    using u by (simp add: last_rev)
  moreover have "\<not> isspace (hd ?u)"
    using u by (rule hd_dropWhile)
  ultimately show ?thesis by simp
qed

text \<open>
  The fixed part of the prompt: the instruction, the one example pair, and the label
  after which the query is put; only whitespace follows the query.
\<close>

lemma prompt_head_instruction:
  "sublist (''Convert this query into a Google search query '' @ [CHR 0x0A]
            @ ''    to find LinkedIn profiles.'') prompt_head"
  "sublist (''Only return the search query string.'' @ [CHR 0x0A]
            @ ''    No explanation.'') prompt_head"
  by (simp_all add: prompt_head_def newline_def sublist_Cons_right)

lemma prompt_head_example:
  "sublist (''Example:'' @ [CHR 0x0A] @ ''    Input: CEO in Mumbai'' @ [CHR 0x0A]
            @ ''    Output: site:linkedin.com/in '' @ [CHR 0x22] @ ''CEO'' @ [CHR 0x22]
            @ '' '' @ [CHR 0x22] @ ''Mumbai'' @ [CHR 0x22]) prompt_head"
  by (simp add: prompt_head_def newline_def sublist_Cons_right)

lemma prompt_head_query: "suffix ''Query: '' prompt_head"
  by (simp add: prompt_head_def newline_def suffix_def)

lemma prompt_tail_space: "list_all isspace prompt_tail"
  by (simp add: prompt_tail_def newline_def isspace_def)

lemma prompt_query: "sublist (''Query: '' @ q) (prompt q)"
proof -
  from prompt_head_query obtain before where "prompt_head = before @ ''Query: ''"
    by (auto simp: suffix_def)
  then have "prompt q = before @ (''Query: '' @ q) @ prompt_tail"
    by (simp add: prompt_def)
  then show ?thesis
    by (metis sublist_appendI)
qed

text \<open>
  C5, as amended. For every query string, \<open>convert_query_to_google_query\<close> calls the
  model \<^verbatim>\<open>gemini-2.5-flash\<close> with the query embedded in the fixed prompt template, its
  result depending on the model through that one call only. The template carries the
  instruction and the one example pair before the query, which follows the label
  \<^verbatim>\<open>Query:\<close> and is followed by whitespace only. When the call returns a response
  whose text is a string, the result is that text with the whitespace at both ends
  removed and nothing else changed.
\<close>

theorem convert_query_stripped_text:
  assumes "gen ''gemini-2.5-flash'' (prompt q) = Inr r"
    and "response_text r = Some t"
  shows "convert_query_to_google_query gen q = Inr (strip t)
       \<and> (\<exists>before after. t = before @ strip t @ after
             \<and> list_all isspace before \<and> list_all isspace after)
       \<and> (strip t = [] \<or> (\<not> isspace (hd (strip t)) \<and> \<not> isspace (last (strip t))))
       \<and> prompt q = prompt_head @ q @ prompt_tail
       \<and> (gen' ''gemini-2.5-flash'' (prompt q) = gen ''gemini-2.5-flash'' (prompt q)
            \<longrightarrow> convert_query_to_google_query gen' q = convert_query_to_google_query gen q)
       \<and> sublist (''Convert this query into a Google search query '' @ [CHR 0x0A]
                   @ ''    to find LinkedIn profiles.'') prompt_head
       \<and> sublist (''Only return the search query string.'' @ [CHR 0x0A]
                   @ ''    No explanation.'') prompt_head
       \<and> sublist (''Example:'' @ [CHR 0x0A] @ ''    Input: CEO in Mumbai'' @ [CHR 0x0A]
                   @ ''    Output: site:linkedin.com/in '' @ [CHR 0x22] @ ''CEO'' @ [CHR 0x22]
                   @ '' '' @ [CHR 0x22] @ ''Mumbai'' @ [CHR 0x22]) prompt_head
       \<and> suffix ''Query: '' prompt_head
       \<and> sublist (''Query: '' @ q) (prompt q)
       \<and> list_all isspace prompt_tail"
proof -
  have a: "convert_query_to_google_query gen q = Inr (strip t)"
    using assms
    by (simp add: convert_query_to_google_query_def convert_query_try_def str_strip_def)
  have b: "strip t = [] \<or> (\<not> isspace (hd (strip t)) \<and> \<not> isspace (last (strip t)))"
    using strip_ends [of t] by blast
  have c: "gen' ''gemini-2.5-flash'' (prompt q) = gen ''gemini-2.5-flash'' (prompt q)
            \<longrightarrow> convert_query_to_google_query gen' q = convert_query_to_google_query gen q"
    by (simp add: convert_query_to_google_query_def convert_query_try_def)
  have d: "prompt q = prompt_head @ q @ prompt_tail"
    by (simp add: prompt_def)
  show ?thesis
    by (intro conjI a strip_decompose b d c prompt_head_instruction prompt_head_example
        prompt_head_query prompt_query prompt_tail_space)
qed

lemma strip_sample_answer: "strip sample_answer = ''site:linkedin.com/in CEO Mumbai''"
  by (simp add: sample_answer_def newline_def strip_def isspace_def)

theorem convert_query_stripped_text_witness:
  "answer_with sample_answer ''gemini-2.5-flash'' (prompt ''CEO in Mumbai'')
     = Inr \<lparr>response_text = Some sample_answer\<rparr>
   \<and> response_text \<lparr>response_text = Some sample_answer\<rparr> = Some sample_answer
   \<and> convert_query_to_google_query (answer_with sample_answer) ''CEO in Mumbai''
       = Inr ''site:linkedin.com/in CEO Mumbai''
   \<and> answer_only (prompt ''CEO in Mumbai'') sample_answer
         ''gemini-2.5-flash'' (prompt ''CEO in Mumbai'')
       = answer_with sample_answer ''gemini-2.5-flash'' (prompt ''CEO in Mumbai'')
   \<and> convert_query_to_google_query
         (answer_only (prompt ''CEO in Mumbai'') sample_answer) ''CEO in Mumbai''
       = Inr ''site:linkedin.com/in CEO Mumbai''"
proof -
  have h1: "answer_with sample_answer ''gemini-2.5-flash'' (prompt ''CEO in Mumbai'')
              = Inr \<lparr>response_text = Some sample_answer\<rparr>"
    by (simp add: answer_with_def)
  have h2: "response_text \<lparr>response_text = Some sample_answer\<rparr> = Some sample_answer"
    by simp
  have h3: "answer_only (prompt ''CEO in Mumbai'') sample_answer
              ''gemini-2.5-flash'' (prompt ''CEO in Mumbai'')
            = answer_with sample_answer ''gemini-2.5-flash'' (prompt ''CEO in Mumbai'')"
    by (simp add: answer_only_def answer_with_def)
  note t = convert_query_stripped_text [where gen = "answer_with sample_answer"
      and gen' = "answer_only (prompt ''CEO in Mumbai'') sample_answer", OF h1 h2]
  have a: "convert_query_to_google_query (answer_with sample_answer) ''CEO in Mumbai''
             = Inr ''site:linkedin.com/in CEO Mumbai''"
    using t [THEN conjunct1] by (simp only: strip_sample_answer)
  have b: "convert_query_to_google_query
             (answer_only (prompt ''CEO in Mumbai'') sample_answer) ''CEO in Mumbai''
           = convert_query_to_google_query (answer_with sample_answer) ''CEO in Mumbai''"
    using t [THEN conjunct2, THEN conjunct2, THEN conjunct2, THEN conjunct2, THEN conjunct1] h3
    by (rule mp)
  have c: "convert_query_to_google_query
             (answer_only (prompt ''CEO in Mumbai'') sample_answer) ''CEO in Mumbai''
           = Inr ''site:linkedin.com/in CEO Mumbai''"
    unfolding b by (rule a)
  show ?thesis
    by (rule conjI [OF h1 conjI [OF h2 conjI [OF a conjI [OF h3 c]]]])
qed

text \<open>
  C5, as stated, fails: here the call to the model succeeds, its response has no text, and
  \<open>convert_query_to_google_query\<close> raises instead of returning a stripped text.
\<close>

theorem convert_query_no_text_counterexample:
  "textless_model ''gemini-2.5-flash'' (prompt ''CEO in Mumbai'')
     = Inr \<lparr>response_text = None\<rparr>
   \<and> convert_query_to_google_query textless_model ''CEO in Mumbai''
       = Inl (HTTPException 500 ''Gemini failed'')"
  by (simp add: textless_model_def convert_query_to_google_query_def convert_query_try_def
      str_strip_def)

section \<open>The store\<close>

lemma store_loop_table:
  "table (snd (store_loop items s)) = table s \<and> txn (snd (store_loop items s)) = txn s"
  by (induction items arbitrary: s) (auto simp: add_def split: sum.splits)

lemma store_loop_ok:
  "store_loop items s = (Inr u, s') \<Longrightarrow>
   \<exists>objs. map new_lead items = map Inr objs \<and> s' = s\<lparr>pending := pending s @ objs\<rparr>"
proof (induction items arbitrary: s)
  case Nil
  then show ?case by simp
next
  case (Cons lead rest)
  then obtain obj where obj: "new_lead lead = Inr obj"
    and rest: "store_loop rest (add s obj) = (Inr u, s')"
    by (auto split: sum.splits)
  from Cons.IH [OF rest] obtain objs where
    objs: "map new_lead rest = map Inr objs" "s' = (add s obj)\<lparr>pending := pending (add s obj) @ objs\<rparr>"
    by blast
  have "map new_lead (lead # rest) = map Inr (obj # objs)"
    using obj objs(1) by simp
  moreover have "s' = s\<lparr>pending := pending s @ (obj # objs)\<rparr>"
    using objs(2) by (simp add: add_def)
  ultimately show ?case by blast
qed

lemma store_loop_all:
  "map new_lead items = map Inr objs \<Longrightarrow>
   store_loop items s = (Inr (), s\<lparr>pending := pending s @ objs\<rparr>)"
proof (induction items arbitrary: s objs)
  case Nil
  then show ?case by simp
next
  case (Cons lead rest)
  then obtain obj objs' where o: "objs = obj # objs'" "new_lead lead = Inr obj"
    "map new_lead rest = map Inr objs'"
    by (cases objs) auto
  show ?case
    using Cons.IH [OF o(3), of "add s obj"] o by (simp add: add_def)
qed

lemma flush_table: "table (snd (flush d objs s)) = table s"
  by (induction objs arbitrary: s) auto

lemma flush_ok:
  "flush d objs s = (Inr u, s') \<Longrightarrow>
   \<exists>new. s' = s\<lparr>txn := txn s @ new, pending := []\<rparr>
        \<and> list_all2 (\<lambda>obj row. lead_id row \<noteq> None \<and> row\<lparr>lead_id := None\<rparr> = obj\<lparr>lead_id := None\<rparr>) objs new"
proof (induction objs arbitrary: s)
  case Nil
  then show ?case by auto
next
  case (Cons obj rest)
  let ?row = "obj\<lparr>lead_id := Some (assign_id d (table s @ txn s))\<rparr>"
  from Cons.prems have ok: "\<not> insert_fails d (length (txn s)) obj"
    and rest: "flush d rest (s\<lparr>txn := txn s @ [?row]\<rparr>) = (Inr u, s')"
    by (auto split: if_splits)
  from Cons.IH [OF rest] obtain new where
    new: "s' = s\<lparr>txn := txn s @ [?row], txn := txn (s\<lparr>txn := txn s @ [?row]\<rparr>) @ new, pending := []\<rparr>"
      "list_all2 (\<lambda>obj row. lead_id row \<noteq> None \<and> row\<lparr>lead_id := None\<rparr> = obj\<lparr>lead_id := None\<rparr>) rest new"
    by auto
  have "s' = s\<lparr>txn := txn s @ (?row # new), pending := []\<rparr>"
    using new(1) by simp
  moreover have "list_all2 (\<lambda>obj row. lead_id row \<noteq> None \<and> row\<lparr>lead_id := None\<rparr> = obj\<lparr>lead_id := None\<rparr>)
      (obj # rest) (?row # new)"
    using new(2) by simp
  ultimately show ?case by blast
qed

lemma flush_fails:
  "i < length objs \<Longrightarrow> insert_fails d (length (txn s) + i) (objs ! i) \<Longrightarrow>
   fst (flush d objs s) = Inl DBAPIError"
proof (induction objs arbitrary: s i)
  case Nil
  then show ?case by simp
next
  case (Cons obj rest)
  show ?case
  proof (cases i)
    case 0
    then show ?thesis using Cons.prems by simp
  next
    case (Suc j)
    then show ?thesis
      using Cons.prems Cons.IH [of j "s\<lparr>txn := txn s @ [obj\<lparr>lead_id := Some (assign_id d (table s @ txn s))\<rparr>]\<rparr>"]
      by simp
  qed
qed

lemma flush_succeeds:
  "(\<forall>i<length objs. \<not> insert_fails d (length (txn s) + i) (objs ! i)) \<Longrightarrow>
   fst (flush d objs s) = Inr ()"
proof (induction objs arbitrary: s)
  case Nil
  then show ?case by simp
next
  case (Cons obj rest)
  have h: "\<not> insert_fails d (length (txn s)) obj"
    using Cons.prems [rule_format, of 0] by simp
  have "\<forall>i<length rest. \<not> insert_fails d (Suc (length (txn s)) + i) (rest ! i)"
    using Cons.prems by auto
  then show ?case
    using h Cons.IH [of "s\<lparr>txn := txn s @ [obj\<lparr>lead_id := Some (assign_id d (table s @ txn s))\<rparr>]\<rparr>"]
    by simp
qed


lemma commit_table_fail:
  "commit d s = (Inl e, s') \<Longrightarrow> table s' = table s"
  using flush_table [of d "pending s" s]
  by (auto simp: commit_def split: prod.splits sum.splits if_splits)

lemma commit_ok:
  assumes "commit d s = (Inr u, s')"
  shows "\<exists>new. table s' = table s @ txn s @ new
      \<and> list_all2 (\<lambda>obj row. lead_id row \<noteq> None \<and> row\<lparr>lead_id := None\<rparr> = obj\<lparr>lead_id := None\<rparr>)
           (pending s) new"
proof -
  from assms obtain s1 where f: "flush d (pending s) s = (Inr (), s1)"
    and s': "s' = s1\<lparr>table := table s1 @ txn s1, txn := []\<rparr>"
    by (auto simp: commit_def split: prod.splits sum.splits if_splits)
  from flush_ok [OF f] obtain new where
    new: "s1 = s\<lparr>txn := txn s @ new, pending := []\<rparr>"
      "list_all2 (\<lambda>obj row. lead_id row \<noteq> None \<and> row\<lparr>lead_id := None\<rparr> = obj\<lparr>lead_id := None\<rparr>)
         (pending s) new"
    by blast
  have "table s' = table s @ txn s @ new"
    using s' new(1) by simp
  with new(2) show ?thesis by blast
qed

lemma new_lead_id: "new_lead lead = Inr obj \<Longrightarrow> lead_id obj = None"
  by (auto simp: new_lead_def bnd_def split: sum.splits)

lemma stored_as_rows:
  assumes "map new_lead ls = map Inr objs"
    and "list_all2 (\<lambda>obj row. lead_id row \<noteq> None \<and> row\<lparr>lead_id := None\<rparr> = obj\<lparr>lead_id := None\<rparr>)
           objs new"
  shows "list_all2 stored_as ls new"
proof -
  have len: "length ls = length objs"
    using assms(1) by (metis length_map)
  have len2: "length objs = length new"
    using assms(2) by (rule list_all2_lengthD)
  show ?thesis
  proof (rule list_all2_all_nthI)
    show "length ls = length new" using len len2 by simp
  next
    fix n assume n: "n < length ls"
    have "new_lead (ls ! n) = Inr (objs ! n)"
      using assms(1) n len by (metis nth_map)
    moreover from this have "objs ! n = (objs ! n)\<lparr>lead_id := None\<rparr>"
      using new_lead_id [of "ls ! n" "objs ! n"] by simp
    moreover have "lead_id (new ! n) \<noteq> None
        \<and> (new ! n)\<lparr>lead_id := None\<rparr> = (objs ! n)\<lparr>lead_id := None\<rparr>"
      using assms(2) n len by (simp add: list_all2_conv_all_nth)
    ultimately show "stored_as (ls ! n) (new ! n)"
      by (simp add: stored_as_def)
  qed
qed

lemma store_leads_outcome:
  "(fst (store_leads d rows (PList ls)) = Inr ()
      \<and> (\<exists>new. table (snd (store_leads d rows (PList ls))) = rows @ new
            \<and> length new = length ls \<and> list_all2 stored_as ls new))
   \<or> (fst (store_leads d rows (PList ls)) = Inl (HTTPException 500 ''Database error'')
      \<and> table (snd (store_leads d rows (PList ls))) = rows)"
proof -
  let ?s0 = "SessionLocal rows"
  obtain r1 s1 where loop: "store_loop ls ?s0 = (r1, s1)"
    by (cases "store_loop ls ?s0")
  have t1: "table s1 = rows" "txn s1 = []"
    using store_loop_table [of ls ?s0] loop by (simp_all add: SessionLocal_def)
  show ?thesis
  proof (cases r1)
    case (Inl e)
    then show ?thesis
      using loop t1 by (simp add: store_leads_def store_leads_try_def rollback_def close_def)
  next
    case (Inr u)
    from store_loop_ok [OF loop [unfolded Inr]] obtain objs where
      objs: "map new_lead ls = map Inr objs" "s1 = ?s0\<lparr>pending := pending ?s0 @ objs\<rparr>"
      by blast
    then have p1: "pending s1 = objs"
      by (simp add: SessionLocal_def)
    obtain r2 s2 where c: "commit d s1 = (r2, s2)"
      by (cases "commit d s1")
    show ?thesis
    proof (cases r2)
      case (Inl e)
      then have "table s2 = rows"
        using commit_table_fail [of d s1 e s2] c t1 by simp
      then show ?thesis
        using loop Inr c Inl
        by (simp add: store_leads_def store_leads_try_def rollback_def close_def)
    next
      case ok: (Inr v)
      from commit_ok [OF c [unfolded ok]] obtain new where
        new: "table s2 = table s1 @ txn s1 @ new"
          "list_all2 (\<lambda>obj row. lead_id row \<noteq> None \<and> row\<lparr>lead_id := None\<rparr> = obj\<lparr>lead_id := None\<rparr>)
             (pending s1) new"
        by blast
      have st: "list_all2 stored_as ls new"
        using stored_as_rows [OF objs(1)] new(2) p1 by simp
      then have "length new = length ls"
        by (simp add: list_all2_lengthD)
      moreover have "table s2 = rows @ new"
        using new(1) t1 by simp
      ultimately show ?thesis
        using loop Inr c ok st
        by (simp add: store_leads_def store_leads_try_def close_def)
    qed
  qed
qed

text \<open>
  C8. The session that \<open>store_leads\<close> opens is open at the start and, whatever the
  argument, closed at the end, with nothing pending and no transaction left: both when
  the block returns and when the handler has rolled back and raised the database error.
\<close>

theorem store_leads_closes_session:
  "\<not> is_closed (SessionLocal rows)
   \<and> is_closed (snd (store_leads d rows leads))
   \<and> txn (snd (store_leads d rows leads)) = []
   \<and> pending (snd (store_leads d rows leads)) = []"
proof -
  obtain r db' where body: "store_leads_try d leads (SessionLocal rows) = (r, db')"
    by (cases "store_leads_try d leads (SessionLocal rows)")
  have opened: "\<not> is_closed (SessionLocal rows)"
    by (simp add: SessionLocal_def)
  show ?thesis
  proof (cases r)
    case (Inl e)
    then have "store_leads d rows leads
        = (Inl (HTTPException 500 ''Database error''), close (rollback db'))"
      using body by (simp add: store_leads_def)
    then show ?thesis
      using opened by (simp add: close_def)
  next
    case (Inr u)
    then have "store_leads d rows leads = (Inr (), close db')"
      using body by (simp add: store_leads_def)
    then show ?thesis
      using opened by (simp add: close_def)
  qed
qed

lemma store_leads_commit:
  assumes "map new_lead ls = map Inr objs"
  shows "store_leads_try d (PList ls) (SessionLocal rows)
       = commit d \<lparr>table = rows, txn = [], pending = objs, is_closed = False\<rparr>"
  using store_loop_all [OF assms, of "SessionLocal rows"]
  by (simp add: store_leads_try_def SessionLocal_def)

text \<open>
  C2. For every list of K lead records, \<open>store_leads\<close> either returns with the K rows
  added to the table, one per record in order, or raises the database error with the
  table as it was. When every record gives an object and the database refuses one of the
  inserts, it is the second; when it refuses none and commits, it is the first.
\<close>

theorem store_leads_all_or_nothing:
  "((fst (store_leads d rows (PList ls)) = Inr ()
       \<and> (\<exists>new. table (snd (store_leads d rows (PList ls))) = rows @ new
             \<and> length new = length ls \<and> list_all2 stored_as ls new))
     \<or> (fst (store_leads d rows (PList ls)) = Inl (HTTPException 500 ''Database error'')
       \<and> table (snd (store_leads d rows (PList ls))) = rows))
   \<and> (map new_lead ls = map Inr objs \<longrightarrow> i < length objs \<longrightarrow> insert_fails d i (objs ! i) \<longrightarrow>
         fst (store_leads d rows (PList ls)) = Inl (HTTPException 500 ''Database error'')
       \<and> table (snd (store_leads d rows (PList ls))) = rows)
   \<and> (map new_lead ls = map Inr objs \<longrightarrow> (\<forall>i<length objs. \<not> insert_fails d i (objs ! i)) \<longrightarrow>
         \<not> commit_fails d \<longrightarrow>
         fst (store_leads d rows (PList ls)) = Inr ())"
proof -
  let ?s1 = "\<lparr>table = rows, txn = [], pending = objs, is_closed = False\<rparr>"
  note dich = store_leads_outcome [of d rows ls]
  have b: "fst (store_leads d rows (PList ls)) = Inl (HTTPException 500 ''Database error'')
       \<and> table (snd (store_leads d rows (PList ls))) = rows"
    if m: "map new_lead ls = map Inr objs" and i: "i < length objs" "insert_fails d i (objs ! i)"
  proof -
    have "fst (flush d objs ?s1) = Inl DBAPIError"
      using flush_fails [of i objs d ?s1] i by simp
    then have "\<exists>e. fst (commit d ?s1) = Inl e"
      by (auto simp: commit_def split: prod.splits sum.splits)
    then have "\<exists>e. fst (store_leads d rows (PList ls)) = Inl e"
      using store_leads_commit [OF m, of d rows]
      by (auto simp: store_leads_def split: prod.splits sum.splits)
    then show ?thesis using dich by auto
  qed
  have c: "fst (store_leads d rows (PList ls)) = Inr ()"
    if m: "map new_lead ls = map Inr objs"
      and ok: "\<forall>i<length objs. \<not> insert_fails d i (objs ! i)" "\<not> commit_fails d"
  proof -
    have "fst (flush d objs ?s1) = Inr ()"
      using flush_succeeds [of objs d ?s1] ok(1) by simp
    then have "fst (commit d ?s1) = Inr ()"
      using ok(2) by (auto simp: commit_def split: prod.splits sum.splits)
    then show ?thesis
      using store_leads_commit [OF m, of d rows]
      by (auto simp: store_leads_def split: prod.splits sum.splits)
  qed
  show ?thesis using dich b c by blast
qed

text \<open>Storing the sample lead in the empty table.\<close>

lemma new_lead_sample: "new_lead sample_lead = Inr sample_row"
  by (simp add: new_lead_def sample_lead_def sample_row_def)

lemma store_sample:
  "store_leads sample_db [] (PList [sample_lead])
     = (Inr (), \<lparr>table = [sample_row\<lparr>lead_id := Some 1\<rparr>], txn = [], pending = [],
                 is_closed = True\<rparr>)"
  by (simp add: store_leads_def store_leads_try_def new_lead_sample SessionLocal_def add_def
      commit_def sample_db_def never_fails_def next_key_def close_def)

theorem store_leads_all_or_nothing_witness:
  "map new_lead [sample_lead, sample_lead] = map Inr [sample_row, sample_row]
   \<and> (1::nat) < length [sample_row, sample_row]
   \<and> insert_fails strict_db 1 ([sample_row, sample_row] ! 1)
   \<and> fst (store_leads strict_db [sample_row\<lparr>lead_id := Some 1\<rparr>] (PList [sample_lead, sample_lead]))
       = Inl (HTTPException 500 ''Database error'')
   \<and> table (snd (store_leads strict_db [sample_row\<lparr>lead_id := Some 1\<rparr>]
                   (PList [sample_lead, sample_lead])))
       = [sample_row\<lparr>lead_id := Some 1\<rparr>]
   \<and> map new_lead [sample_lead] = map Inr [sample_row]
   \<and> \<not> insert_fails sample_db 0 ([sample_row] ! 0)
   \<and> \<not> commit_fails sample_db
   \<and> fst (store_leads sample_db [] (PList [sample_lead])) = Inr ()
   \<and> table (snd (store_leads sample_db [] (PList [sample_lead])))
       = [sample_row\<lparr>lead_id := Some 1\<rparr>]"
proof -
  have h1: "map new_lead [sample_lead, sample_lead] = map Inr [sample_row, sample_row]"
    by (simp add: new_lead_sample)
  have h2: "(1::nat) < length [sample_row, sample_row]"
    by simp
  have h3: "insert_fails strict_db 1 ([sample_row, sample_row] ! 1)"
    by (simp add: strict_db_def refuses_second_def)
  have k1: "map new_lead [sample_lead] = map Inr [sample_row]"
    by (simp add: new_lead_sample)
  have k2: "\<forall>i<length [sample_row]. \<not> insert_fails sample_db i ([sample_row] ! i)"
    by (simp add: sample_db_def never_fails_def)
  have k3: "\<not> commit_fails sample_db"
    by (simp add: sample_db_def)
  note bad = store_leads_all_or_nothing [where d = strict_db
      and rows = "[sample_row\<lparr>lead_id := Some 1\<rparr>]" and ls = "[sample_lead, sample_lead]"
      and objs = "[sample_row, sample_row]" and i = 1]
  note good = store_leads_all_or_nothing [where d = sample_db and rows = "[]"
      and ls = "[sample_lead]" and objs = "[sample_row]"]
  have a: "fst (store_leads strict_db [sample_row\<lparr>lead_id := Some 1\<rparr>]
                  (PList [sample_lead, sample_lead]))
             = Inl (HTTPException 500 ''Database error'')
         \<and> table (snd (store_leads strict_db [sample_row\<lparr>lead_id := Some 1\<rparr>]
                          (PList [sample_lead, sample_lead])))
             = [sample_row\<lparr>lead_id := Some 1\<rparr>]"
    using bad [THEN conjunct2, THEN conjunct1] h1 h2 h3 by blast
  have b: "fst (store_leads sample_db [] (PList [sample_lead])) = Inr ()"
    using good [THEN conjunct2, THEN conjunct2] k1 k2 k3 by blast
  have c: "table (snd (store_leads sample_db [] (PList [sample_lead])))
             = [sample_row\<lparr>lead_id := Some 1\<rparr>]"
    by (simp add: store_sample)
  have k2': "\<not> insert_fails sample_db 0 ([sample_row] ! 0)"
    using k2 by simp
  show ?thesis
    using h1 h2 h3 a k1 k2' k3 b c by blast
qed


section \<open>Fetched leads in the store\<close>

text \<open>Every lead that \<open>fetch_leads\<close> returns is a dict literal of the loop.\<close>

lemma lead_dict_shape:
  "lead_dict item personal_info link = Inr lead \<Longrightarrow>
   \<exists>v_name v_title v_company v_location.
     lead = PDict [(''name'', v_name), (''title'', v_title), (''email'', PNone),
                   (''organization'', PDict [(''name'', v_company)]),
                   (''location'', v_location), (''linkedin_url'', link)]"
  by (auto simp: lead_dict_def bnd_def split: sum.splits)

lemma lead_dict_location:
  "lead_dict item personal_info link = Inr lead \<Longrightarrow>
   field lead ''location'' = field personal_info ''location''"
  by (cases personal_info)
     (auto simp: lead_dict_def bnd_def field_def split: sum.splits option.splits)

lemma fetch_loop_invariant:
  assumes "fetch_loop items acc = Inr ls"
    and "\<forall>l\<in>set acc. P l"
    and "\<And>item personal_info link lead. lead_dict item personal_info link = Inr lead \<Longrightarrow> P lead"
  shows "\<forall>l\<in>set ls. P l"
  using assms(1,2)
proof (induction items arbitrary: acc)
  case Nil
  then show ?case by simp
next
  case (Cons item rest)
  from Cons.prems(1) obtain link found where
    link: "dict_get item ''url'' (PStr []) = Inr link"
    and found: "py_in ''linkedin.com/in'' link = Inr found"
    by (auto simp: bnd_def split: sum.splits)
  show ?case
  proof (cases found)
    case False
    then have "fetch_loop rest acc = Inr ls"
      using Cons.prems(1) link found by simp
    then show ?thesis using Cons.IH Cons.prems(2) by blast
  next
    case True
    then obtain personal_info lead where
      lead: "lead_dict item personal_info link = Inr lead"
      and rest: "fetch_loop rest (acc @ [lead]) = Inr ls"
      using Cons.prems(1) link found by (auto simp: bnd_def split: sum.splits)
    have "\<forall>l\<in>set (acc @ [lead]). P l"
      using Cons.prems(2) assms(3) [OF lead] by simp
    then show ?thesis using Cons.IH [OF rest] by blast
  qed
qed

lemma fetch_leads_shape:
  assumes "fetch_leads tok send q = Inr (PList ls)"
  shows "\<forall>lead\<in>set ls. \<exists>v_name v_title v_company v_location link.
     lead = PDict [(''name'', v_name), (''title'', v_title), (''email'', PNone),
                   (''organization'', PDict [(''name'', v_company)]),
                   (''location'', v_location), (''linkedin_url'', link)]"
proof -
  from assms have t: "fetch_leads_try tok send q = Inr (PList ls)"
    by (simp add: fetch_leads_Inr)
  then consider "ls = []" | items where "fetch_loop items [] = Inr ls"
    by (auto simp: fetch_leads_try_def bnd_def split: sum.splits if_splits)
  then show ?thesis
  proof cases
    case 1
    then show ?thesis by simp
  next
    case 2
    show ?thesis
      by (rule fetch_loop_invariant [OF 2]) (auto dest: lead_dict_shape)
  qed
qed

lemma inserted_rows_from:
  assumes "row \<in> set (drop (length rows) (table (snd (store_leads d rows (PList ls)))))"
  shows "\<exists>lead\<in>set ls. stored_as lead row"
proof -
  from store_leads_outcome [of d rows ls] assms
  obtain new where new: "row \<in> set new" "list_all2 stored_as ls new"
    by auto
  then obtain n where n: "n < length new" "new ! n = row"
    by (auto simp: in_set_conv_nth)
  then have "stored_as (ls ! n) row" "n < length ls"
    using new(2) by (auto simp: list_all2_conv_all_nth)
  then show ?thesis by (metis nth_mem)
qed

lemma new_lead_of_shape:
  assumes "new_lead (PDict [(''name'', v_name), (''title'', v_title), (''email'', PNone),
                   (''organization'', PDict [(''name'', v_company)]),
                   (''location'', v_location), (''linkedin_url'', link)]) = Inr obj"
  shows "location obj = PNone \<and> email obj = PNone"
  using assms by (auto simp: new_lead_def)

lemma inserted_rows_null:
  assumes "fetch_leads tok send q = Inr (PList ls)"
    and "row \<in> set (drop (length rows) (table (snd (store_leads d rows (PList ls)))))"
  shows "location row = PNone \<and> email row = PNone"
proof -
  from inserted_rows_from [OF assms(2)] obtain lead where
    lead: "lead \<in> set ls" "new_lead lead = Inr (row\<lparr>lead_id := None\<rparr>)"
    by (auto simp: stored_as_def)
  from fetch_leads_shape [OF assms(1)] lead(1) obtain v_name v_title v_company v_location link
    where "lead = PDict [(''name'', v_name), (''title'', v_title), (''email'', PNone),
                   (''organization'', PDict [(''name'', v_company)]),
                   (''location'', v_location), (''linkedin_url'', link)]"
    by blast
  with lead(2) have "location (row\<lparr>lead_id := None\<rparr>) = PNone \<and> email (row\<lparr>lead_id := None\<rparr>) = PNone"
    using new_lead_of_shape by blast
  then show ?thesis by simp
qed

text \<open>A run on the sample response, and what storing its lead leaves in the table.\<close>

lemma fetch_sample:
  "fetch_leads ''t'' (reply_with sample_response) ''q'' = Inr (PList [sample_lead])"
  using fetch_loop_wf [OF sample_results_wf, of "[]"]
  by (simp add: fetch_leads_def fetch_leads_try_def response_json_def reply_with_def
      sample_response_def sample_results_filter sample_lead_record)


lemma stored_sample_rows:
  "drop (length ([] :: Lead list)) (table (snd (store_leads sample_db [] (PList [sample_lead]))))
     = [sample_row\<lparr>lead_id := Some 1\<rparr>]"
  by (simp add: store_sample)

lemma lead_dict_sample:
  "lead_dict profile_result
     (PDict [(''jobTitle'', PStr ''CEO''), (''location'', PStr ''Mumbai'')])
     (PStr ''https://www.linkedin.com/in/jane'') = Inr sample_lead"
  by (simp add: lead_dict_def profile_result_def sample_lead_def)

text \<open>
  C3. Every lead that \<open>fetch_leads\<close> returns has an \<^verbatim>\<open>organization\<close> dict with the
  one key \<^verbatim>\<open>name\<close> and carries the scraped location under its own key
  \<^verbatim>\<open>location\<close>; \<open>store_leads\<close> reads the column from the \<^verbatim>\<open>organization\<close> dict,
  so every row it inserts for such leads has a null location.
\<close>

theorem fetched_location_not_stored:
  assumes "fetch_leads tok send q = Inr (PList ls)"
  shows "(\<forall>lead\<in>set ls. \<exists>v_name v_title v_company v_location link.
            lead = PDict [(''name'', v_name), (''title'', v_title), (''email'', PNone),
                          (''organization'', PDict [(''name'', v_company)]),
                          (''location'', v_location), (''linkedin_url'', link)])
       \<and> (\<forall>row\<in>set (drop (length rows) (table (snd (store_leads d rows (PList ls))))).
            location row = PNone)
       \<and> (lead_dict item personal_info url = Inr built \<longrightarrow>
            field built ''location'' = field personal_info ''location'')"
  using fetch_leads_shape [OF assms] inserted_rows_null [OF assms] lead_dict_location
  by blast

theorem fetched_location_not_stored_witness:
  "fetch_leads ''t'' (reply_with sample_response) ''q'' = Inr (PList [sample_lead])
   \<and> drop (length ([] :: Lead list))
         (table (snd (store_leads sample_db [] (PList [sample_lead]))))
       = [sample_row\<lparr>lead_id := Some 1\<rparr>]
   \<and> location (sample_row\<lparr>lead_id := Some 1\<rparr>) = PNone
   \<and> lead_dict profile_result
         (PDict [(''jobTitle'', PStr ''CEO''), (''location'', PStr ''Mumbai'')])
         (PStr ''https://www.linkedin.com/in/jane'') = Inr sample_lead
   \<and> field sample_lead ''location'' = PStr ''Mumbai''"
proof -
  note t = fetched_location_not_stored [OF fetch_sample, where rows = "[]" and d = sample_db
      and item = profile_result
      and personal_info = "PDict [(''jobTitle'', PStr ''CEO''), (''location'', PStr ''Mumbai'')]"
      and url = "PStr ''https://www.linkedin.com/in/jane''" and built = sample_lead]
  have a: "location (sample_row\<lparr>lead_id := Some 1\<rparr>) = PNone"
    using t [THEN conjunct2, THEN conjunct1, unfolded stored_sample_rows] by simp
  have "field sample_lead ''location''
          = field (PDict [(''jobTitle'', PStr ''CEO''), (''location'', PStr ''Mumbai'')]) ''location''"
    using t [THEN conjunct2, THEN conjunct2] lead_dict_sample by (rule mp)
  then have b: "field sample_lead ''location'' = PStr ''Mumbai''"
    by (simp add: field_def)
  show ?thesis
    by (rule conjI [OF fetch_sample conjI [OF stored_sample_rows conjI [OF a
          conjI [OF lead_dict_sample b]]]])
qed

text \<open>
  C9. Every lead that \<open>fetch_leads\<close> returns has a null \<^verbatim>\<open>email\<close>, and every row that
  \<open>store_leads\<close> inserts for such leads has a null email column.
\<close>

theorem fetched_email_null:
  assumes "fetch_leads tok send q = Inr (PList ls)"
  shows "(\<forall>lead\<in>set ls. \<exists>kvs. lead = PDict kvs \<and> map_of kvs ''email'' = Some PNone)
       \<and> (\<forall>row\<in>set (drop (length rows) (table (snd (store_leads d rows (PList ls))))).
            email row = PNone)"
proof -
  have "\<exists>kvs. lead = PDict kvs \<and> map_of kvs ''email'' = Some PNone" if "lead \<in> set ls" for lead
  proof -
    from fetch_leads_shape [OF assms] that obtain v_name v_title v_company v_location link
      where "lead = PDict [(''name'', v_name), (''title'', v_title), (''email'', PNone),
                   (''organization'', PDict [(''name'', v_company)]),
                   (''location'', v_location), (''linkedin_url'', link)]"
      by blast
    then show ?thesis by simp
  qed
  then show ?thesis
    using inserted_rows_null [OF assms] by blast
qed

theorem fetched_email_null_witness:
  "fetch_leads ''t'' (reply_with sample_response) ''q'' = Inr (PList [sample_lead])
   \<and> drop (length ([] :: Lead list))
         (table (snd (store_leads sample_db [] (PList [sample_lead]))))
       = [sample_row\<lparr>lead_id := Some 1\<rparr>]
   \<and> email (sample_row\<lparr>lead_id := Some 1\<rparr>) = PNone
   \<and> (\<exists>kvs. sample_lead = PDict kvs \<and> map_of kvs ''email'' = Some PNone)"
proof -
  note t = fetched_email_null [OF fetch_sample, where rows = "[]" and d = sample_db]
  have a: "email (sample_row\<lparr>lead_id := Some 1\<rparr>) = PNone"
    using t [THEN conjunct2, unfolded stored_sample_rows] by simp
  have b: "\<exists>kvs. sample_lead = PDict kvs \<and> map_of kvs ''email'' = Some PNone"
    using t [THEN conjunct1] by simp
  show ?thesis
    by (rule conjI [OF fetch_sample conjI [OF stored_sample_rows conjI [OF a b]]])
qed


section \<open>The responses of the endpoint\<close>

lemma generate_leads_convert_fails:
  assumes "convert_query_to_google_query (generate_content e) (query data) = Inl x"
  shows "status (post_generate_leads e rows data) = 500"
  using assms convert_Inl [OF assms]
  by (simp add: post_generate_leads_def generate_leads_def)

lemma generate_leads_fetch_fails:
  assumes "convert_query_to_google_query (generate_content e) (query data) = Inr q"
    and "fetch_leads (APIFY_TOKEN e) (post e) q = Inl x"
  shows "status (post_generate_leads e rows data) = 500"
  using assms fetch_leads_Inl [OF assms(2)]
  by (simp add: post_generate_leads_def generate_leads_def)

lemma generate_leads_store_fails:
  assumes "convert_query_to_google_query (generate_content e) (query data) = Inr q"
    and "fetch_leads (APIFY_TOKEN e) (post e) q = Inr leads"
    and "fst (store_leads (db e) rows leads) = Inl x"
  shows "status (post_generate_leads e rows data) = 500"
proof -
  obtain xs where xs: "leads = PList xs"
    using assms(2) fetch_leads_try_list [of "APIFY_TOKEN e" "post e" q leads]
    by (auto simp: fetch_leads_Inr)
  obtain r s where st: "store_leads (db e) rows leads = (r, s)"
    by (cases "store_leads (db e) rows leads")
  then have "r = Inl (HTTPException 500 ''Database error'')"
    using assms(3) store_leads_Inl [OF assms(3)] by simp
  then show ?thesis
    using assms(1,2) xs st by (simp add: post_generate_leads_def generate_leads_def)
qed

lemma generate_leads_succeeds:
  assumes "convert_query_to_google_query (generate_content e) (query data) = Inr q"
    and "fetch_leads (APIFY_TOKEN e) (post e) q = Inr leads"
    and "fst (store_leads (db e) rows leads) = Inr ()"
  shows "\<exists>xs. leads = PList xs
       \<and> post_generate_leads e rows data
           = \<lparr>status = 200,
              body = PDict [(''google_query'', PStr q),
                            (''leads_found'', PInt (int (length xs)))]\<rparr>"
proof -
  obtain xs where xs: "leads = PList xs"
    using assms(2) fetch_leads_try_list [of "APIFY_TOKEN e" "post e" q leads]
    by (auto simp: fetch_leads_Inr)
  obtain r s where st: "store_leads (db e) rows leads = (r, s)"
    by (cases "store_leads (db e) rows leads")
  then have "r = Inr ()" using assms(3) by simp
  then have "post_generate_leads e rows data
           = \<lparr>status = 200,
              body = PDict [(''google_query'', PStr q),
                            (''leads_found'', PInt (int (length xs)))]\<rparr>"
    using assms(1,2) xs st by (simp add: post_generate_leads_def generate_leads_def)
  with xs show ?thesis by blast
qed

lemma convert_call_fails:
  "gen ''gemini-2.5-flash'' (prompt q) = Inl x \<Longrightarrow>
   convert_query_to_google_query gen q = Inl (HTTPException 500 ''Gemini failed'')"
  by (simp add: convert_query_to_google_query_def convert_query_try_def)

lemma fetch_call_fails:
  "send (apify_url tok) (apify_payload q) = Inl x \<Longrightarrow>
   fetch_leads tok send q = Inl (HTTPException 500 ''Apify request failed'')"
  by (simp add: fetch_leads_def fetch_leads_try_def)

text \<open>
  C4. When the translator, the fetcher and the store all succeed, the endpoint answers
  with status 200 and a body whose \<^verbatim>\<open>google_query\<close> is the translator's output and
  whose \<^verbatim>\<open>leads_found\<close> is the length of the fetcher's list. When the translator, the
  fetcher or the store raises, and in particular when the call to the model or to the
  scraping service raises, the endpoint answers with status 500.
\<close>

theorem generate_leads_response:
  "(convert_query_to_google_query (generate_content e) (query data) = Inr q \<longrightarrow>
      fetch_leads (APIFY_TOKEN e) (post e) q = Inr leads \<longrightarrow>
      fst (store_leads (db e) rows leads) = Inr () \<longrightarrow>
        (\<exists>xs. leads = PList xs
           \<and> post_generate_leads e rows data
               = \<lparr>status = 200,
                  body = PDict [(''google_query'', PStr q),
                                (''leads_found'', PInt (int (length xs)))]\<rparr>))
   \<and> (convert_query_to_google_query (generate_content e) (query data) = Inl x \<longrightarrow>
        status (post_generate_leads e rows data) = 500)
   \<and> (convert_query_to_google_query (generate_content e) (query data) = Inr q \<longrightarrow>
      fetch_leads (APIFY_TOKEN e) (post e) q = Inl x \<longrightarrow>
        status (post_generate_leads e rows data) = 500)
   \<and> (convert_query_to_google_query (generate_content e) (query data) = Inr q \<longrightarrow>
      fetch_leads (APIFY_TOKEN e) (post e) q = Inr leads \<longrightarrow>
      fst (store_leads (db e) rows leads) = Inl x \<longrightarrow>
        status (post_generate_leads e rows data) = 500)
   \<and> (generate_content e ''gemini-2.5-flash'' (prompt (query data)) = Inl x \<longrightarrow>
        status (post_generate_leads e rows data) = 500)
   \<and> (convert_query_to_google_query (generate_content e) (query data) = Inr q \<longrightarrow>
      post e (apify_url (APIFY_TOKEN e)) (apify_payload q) = Inl x \<longrightarrow>
        status (post_generate_leads e rows data) = 500)"
  using generate_leads_succeeds [of e data q leads rows]
    generate_leads_convert_fails [of e data _ rows]
    generate_leads_fetch_fails [of e data q _ rows]
    generate_leads_store_fails [of e data q leads rows x]
    convert_call_fails [of "generate_content e" "query data" x]
    fetch_call_fails [of "post e" "APIFY_TOKEN e" q x]
  by blast


lemma store_failing:
  "fst (store_leads failing_db [] (PList [sample_lead]))
     = Inl (HTTPException 500 ''Database error'')"
  by (simp add: store_leads_def store_leads_try_def new_lead_sample SessionLocal_def add_def
      commit_def failing_db_def never_fails_def)

lemma fetch_unavailable:
  "fetch_leads ''t'' (reply_with unavailable_response) ''q''
     = Inl (HTTPException 500 ''Apify request failed'')"
  by (simp add: fetch_leads_def fetch_leads_try_def reply_with_def unavailable_response_def)

theorem generate_leads_response_witness:
  "convert_query_to_google_query (generate_content sample_env) (query \<lparr>query = ''find''\<rparr>)
     = Inr ''q''
   \<and> fetch_leads (APIFY_TOKEN sample_env) (post sample_env) ''q'' = Inr (PList [sample_lead])
   \<and> fst (store_leads (db sample_env) [] (PList [sample_lead])) = Inr ()
   \<and> post_generate_leads sample_env [] \<lparr>query = ''find''\<rparr>
       = \<lparr>status = 200,
          body = PDict [(''google_query'', PStr ''q''), (''leads_found'', PInt 1)]\<rparr>
   \<and> generate_content (sample_env\<lparr>generate_content := failing_model\<rparr>)
         ''gemini-2.5-flash'' (prompt (query \<lparr>query = ''find''\<rparr>)) = Inl APIError
   \<and> convert_query_to_google_query
         (generate_content (sample_env\<lparr>generate_content := failing_model\<rparr>))
         (query \<lparr>query = ''find''\<rparr>) = Inl (HTTPException 500 ''Gemini failed'')
   \<and> status (post_generate_leads (sample_env\<lparr>generate_content := failing_model\<rparr>) []
         \<lparr>query = ''find''\<rparr>) = 500
   \<and> fetch_leads (APIFY_TOKEN (sample_env\<lparr>post := reply_with unavailable_response\<rparr>))
         (post (sample_env\<lparr>post := reply_with unavailable_response\<rparr>)) ''q''
       = Inl (HTTPException 500 ''Apify request failed'')
   \<and> status (post_generate_leads (sample_env\<lparr>post := reply_with unavailable_response\<rparr>) []
         \<lparr>query = ''find''\<rparr>) = 500
   \<and> post (sample_env\<lparr>post := refuse_post\<rparr>)
         (apify_url (APIFY_TOKEN (sample_env\<lparr>post := refuse_post\<rparr>))) (apify_payload ''q'')
       = Inl RequestException
   \<and> status (post_generate_leads (sample_env\<lparr>post := refuse_post\<rparr>) []
         \<lparr>query = ''find''\<rparr>) = 500
   \<and> fst (store_leads (db (sample_env\<lparr>db := failing_db\<rparr>)) [] (PList [sample_lead]))
       = Inl (HTTPException 500 ''Database error'')
   \<and> status (post_generate_leads (sample_env\<lparr>db := failing_db\<rparr>) []
         \<lparr>query = ''find''\<rparr>) = 500"
proof -
  let ?data = "\<lparr>query = ''find''\<rparr>"
  let ?gem = "sample_env\<lparr>generate_content := failing_model\<rparr>"
  let ?bad = "sample_env\<lparr>post := reply_with unavailable_response\<rparr>"
  let ?off = "sample_env\<lparr>post := refuse_post\<rparr>"
  let ?dbf = "sample_env\<lparr>db := failing_db\<rparr>"
  have conv: "convert_query_to_google_query (generate_content e) (query ?data) = Inr ''q''"
    if "generate_content e = answer_with '' q ''" for e
    using that by (simp add: convert_answer_with strip_sample)
  have c1: "convert_query_to_google_query (generate_content sample_env) (query ?data) = Inr ''q''"
    by (rule conv) (simp add: sample_env_def)
  have c3: "convert_query_to_google_query (generate_content ?bad) (query ?data) = Inr ''q''"
    by (rule conv) (simp add: sample_env_def)
  have c4: "convert_query_to_google_query (generate_content ?off) (query ?data) = Inr ''q''"
    by (rule conv) (simp add: sample_env_def)
  have c5: "convert_query_to_google_query (generate_content ?dbf) (query ?data) = Inr ''q''"
    by (rule conv) (simp add: sample_env_def)
  have f1: "fetch_leads (APIFY_TOKEN sample_env) (post sample_env) ''q''
              = Inr (PList [sample_lead])"
    by (simp add: sample_env_def fetch_sample)
  have f5: "fetch_leads (APIFY_TOKEN ?dbf) (post ?dbf) ''q'' = Inr (PList [sample_lead])"
    by (simp add: sample_env_def fetch_sample)
  have s1: "fst (store_leads (db sample_env) [] (PList [sample_lead])) = Inr ()"
    by (simp add: sample_env_def store_sample)
  have g2: "generate_content ?gem ''gemini-2.5-flash'' (prompt (query ?data)) = Inl APIError"
    by (simp add: failing_model_def)
  have c2: "convert_query_to_google_query (generate_content ?gem) (query ?data)
              = Inl (HTTPException 500 ''Gemini failed'')"
    by (simp add: convert_query_to_google_query_def convert_query_try_def failing_model_def)
  have f3: "fetch_leads (APIFY_TOKEN ?bad) (post ?bad) ''q''
              = Inl (HTTPException 500 ''Apify request failed'')"
    by (simp add: sample_env_def fetch_unavailable)
  have p4: "post ?off (apify_url (APIFY_TOKEN ?off)) (apify_payload ''q'') = Inl RequestException"
    by (simp add: refuse_post_def)
  have s5: "fst (store_leads (db ?dbf) [] (PList [sample_lead]))
              = Inl (HTTPException 500 ''Database error'')"
    by (simp add: store_failing)
  have "\<exists>xs. PList [sample_lead] = PList xs
       \<and> post_generate_leads sample_env [] ?data
           = \<lparr>status = 200,
              body = PDict [(''google_query'', PStr ''q''),
                            (''leads_found'', PInt (int (length xs)))]\<rparr>"
    using generate_leads_response [where e = sample_env and data = ?data and q = "''q''"
        and leads = "PList [sample_lead]" and rows = "[]", THEN conjunct1] c1 f1 s1
    by blast
  then have r1: "post_generate_leads sample_env [] ?data
       = \<lparr>status = 200,
          body = PDict [(''google_query'', PStr ''q''), (''leads_found'', PInt 1)]\<rparr>"
    by auto
  have r2: "status (post_generate_leads ?gem [] ?data) = 500"
    using generate_leads_response [where e = ?gem and data = ?data and rows = "[]"
        and x = APIError, THEN conjunct2, THEN conjunct2, THEN conjunct2, THEN conjunct2,
        THEN conjunct1] g2
    by (rule mp)
  have r3: "status (post_generate_leads ?bad [] ?data) = 500"
    using generate_leads_response [where e = ?bad and data = ?data and q = "''q''"
        and rows = "[]" and x = "HTTPException 500 ''Apify request failed''",
        THEN conjunct2, THEN conjunct2, THEN conjunct1] c3 f3
    by blast
  have r4: "status (post_generate_leads ?off [] ?data) = 500"
    using generate_leads_response [where e = ?off and data = ?data and q = "''q''"
        and rows = "[]" and x = RequestException,
        THEN conjunct2, THEN conjunct2, THEN conjunct2, THEN conjunct2, THEN conjunct2] c4 p4
    by blast
  have r5: "status (post_generate_leads ?dbf [] ?data) = 500"
    using generate_leads_response [where e = ?dbf and data = ?data and q = "''q''"
        and leads = "PList [sample_lead]" and rows = "[]"
        and x = "HTTPException 500 ''Database error''",
        THEN conjunct2, THEN conjunct2, THEN conjunct2, THEN conjunct1] c5 f5 s5
    by blast
  show ?thesis
    by (rule conjI [OF c1 conjI [OF f1 conjI [OF s1 conjI [OF r1 conjI [OF g2 conjI [OF c2
        conjI [OF r2 conjI [OF f3 conjI [OF r3 conjI [OF p4 conjI [OF r4 conjI [OF s5 r5]]]]]]]]]]]])
qed


end
